theory Spec2Isabelle
  imports Complex_Main
begin

section \<open>Values exchanged with the time-tracking service\<close>

text \<open>
  The client and the coordinator handle the decoded JSON payloads as plain Python
  values: \<open>None\<close>, booleans, integers, floats, strings, lists and dictionaries. A
  dictionary is kept as an association list; a key is looked up with \<open>map_of\<close>.
\<close>

datatype json =
    JNull
  | JBool bool
  | JInt int
  | JFloat real
  | JStr string
  | JList "json list"
  | JObj "(string \<times> json) list"

text \<open>
  The exceptions that cross the functions modelled here. \<open>HakunaAuthError\<close> and
  \<open>HakunaRateLimitError\<close> are subclasses of \<open>HakunaApiError\<close> (api.py, lines 15-24);
  \<open>UpdateFailed\<close> is the refresh failure of the host framework; \<open>PyError\<close> stands for
  every other Python exception (an \<open>AttributeError\<close> of \<open>.get\<close> on a value that is
  no dictionary, a \<open>TypeError\<close> of a loop over a value that is not iterable, a decoding
  error, a timeout that is no \<open>aiohttp.ClientError\<close>).
\<close>

datatype exn =
    HakunaApiError string
  | HakunaAuthError string
  | HakunaRateLimitError string
  | UpdateFailed string
  | PyError string

text \<open>\<open>isinstance(err, HakunaApiError)\<close>: the class itself and its two subclasses.\<close>

fun is_HakunaApiError :: "exn \<Rightarrow> bool" where
  "is_HakunaApiError (HakunaApiError m) = True"
| "is_HakunaApiError (HakunaAuthError m) = True"
| "is_HakunaApiError (HakunaRateLimitError m) = True"
| "is_HakunaApiError (UpdateFailed m) = False"
| "is_HakunaApiError (PyError m) = False"

text \<open>\<open>isinstance(err, HakunaAuthError)\<close>.\<close>

fun is_HakunaAuthError :: "exn \<Rightarrow> bool" where
  "is_HakunaAuthError (HakunaAuthError m) = True"
| "is_HakunaAuthError e = False"

text \<open>\<open>str(err)\<close>: the message the exception was raised with.\<close>

fun str_exn :: "exn \<Rightarrow> string" where
  "str_exn (HakunaApiError m) = m"
| "str_exn (HakunaAuthError m) = m"
| "str_exn (HakunaRateLimitError m) = m"
| "str_exn (UpdateFailed m) = m"
| "str_exn (PyError m) = m"

text \<open>Python's truth value of a payload, as \<open>if result\<close> tests it.\<close>

fun truthy :: "json \<Rightarrow> bool" where
  "truthy JNull = False"
| "truthy (JBool b) = b"
| "truthy (JInt i) = (i \<noteq> 0)"
| "truthy (JFloat r) = (r \<noteq> 0)"
| "truthy (JStr s) = (s \<noteq> [])"
| "truthy (JList xs) = (xs \<noteq> [])"
| "truthy (JObj kvs) = (kvs \<noteq> [])"

text \<open>
  \<open>value.get(key)\<close>: the value stored under the key, \<open>None\<close> for a missing key, and
  an \<open>AttributeError\<close> when the value is no dictionary.
\<close>

fun py_get :: "json \<Rightarrow> string \<Rightarrow> exn + json" where
  "py_get (JObj kvs) key = Inr (case map_of kvs key of None \<Rightarrow> JNull | Some v \<Rightarrow> v)"
| "py_get v key = Inl (PyError ''AttributeError'')"

text \<open>
  \<open>for item in value\<close>: the elements of a list, the keys of a dictionary, the
  characters of a string, and a \<open>TypeError\<close> for every other value.
\<close>

fun py_iter :: "json \<Rightarrow> exn + json list" where
  "py_iter (JList xs) = Inr xs"
| "py_iter (JObj kvs) = Inr (map (\<lambda>kv. JStr (fst kv)) kvs)"
| "py_iter (JStr s) = Inr (map (\<lambda>ch. JStr [ch]) s)"
| "py_iter v = Inl (PyError ''TypeError'')"

text \<open>\<open>result if result else []\<close>, the tail of every list-returning operation.\<close>

definition or_empty_list :: "json \<Rightarrow> json" where
  "or_empty_list result = (if truthy result then result else JList [])"

section \<open>The HTTP session\<close>

text \<open>
  What an awaited call of the HTTP library does: it returns a value, raises an
  \<open>aiohttp.ClientError\<close> (with its message), or raises another exception.
\<close>

datatype 'a attempt =
    Returned 'a
  | RaisedClientError string
  | RaisedOther string

record http_request =
  http_method :: string
  url :: string
  req_headers :: "(string \<times> string) list"
  params :: "(string \<times> json) list option"
  json_data :: "(string \<times> json) list option"

text \<open>
  The response as \<open>_request\<close> reads it: \<open>response.status\<close>, \<open>response.headers.get\<close>,
  \<open>await response.text()\<close> and \<open>await response.json()\<close>.
\<close>

record http_response =
  status :: nat
  headers :: "string \<Rightarrow> string option"
  body_text :: "string attempt"
  json_result :: "json attempt"

text \<open>The client (api.py, lines 27-44): the shared session and the credentials.\<close>

record hakuna_client =
  session :: "http_request \<Rightarrow> http_response attempt"
  api_token :: string
  company :: "string option"

definition API_BASE_URL :: string where
  "API_BASE_URL = ''https://app.hakuna.ch/api/v1''"

text \<open>\<open>self._headers\<close>, attached to every request.\<close>

definition client_headers :: "hakuna_client \<Rightarrow> (string \<times> string) list" where
  "client_headers c =
     [(''X-Auth-Token'', api_token c),
      (''Accept-Version'', ''v1''),
      (''Content-Type'', ''application/json'')]"

text \<open>The decimal numeral of a status code, as an f-string prints it.\<close>

fun str_nat :: "nat \<Rightarrow> string" where
  "str_nat n =
     (if n < 10 then [''0123456789'' ! n]
      else str_nat (n div 10) @ [''0123456789'' ! (n mod 10)])"

declare str_nat.simps [simp del]

section \<open>The API client (api.py)\<close>

text \<open>
  \<open>_request\<close> (lines 46-86). \<open>api_request\<close> is what it hands to
  \<open>self._session.request\<close>; the status tests are kept in the order of the source.
\<close>

definition api_request ::
  "hakuna_client \<Rightarrow> string \<Rightarrow> string \<Rightarrow> (string \<times> json) list option
     \<Rightarrow> (string \<times> json) list option \<Rightarrow> http_request" where
  "api_request c meth endpoint ps js =
     \<lparr>http_method = meth, url = API_BASE_URL @ endpoint,
      req_headers = client_headers c, params = ps, json_data = js\<rparr>"

definition request ::
  "hakuna_client \<Rightarrow> string \<Rightarrow> string \<Rightarrow> (string \<times> json) list option
     \<Rightarrow> (string \<times> json) list option \<Rightarrow> exn + json" where
  "request c meth endpoint ps js =
     (case session c (api_request c meth endpoint ps js) of
        RaisedClientError err \<Rightarrow> Inl (HakunaApiError (''Connection error: '' @ err))
      | RaisedOther err \<Rightarrow> Inl (PyError err)
      | Returned response \<Rightarrow>
          if status response = 401 then Inl (HakunaAuthError ''Invalid API token'')
          else if status response = 429 then
            Inl (HakunaRateLimitError
                  (''Rate limit exceeded. Retry after ''
                    @ (case headers response ''Retry-After'' of
                         None \<Rightarrow> ''unknown'' | Some v \<Rightarrow> v)
                    @ '' seconds''))
          else if status response = 404 then Inr JNull
          else if status response \<ge> 400 then
            (case body_text response of
               Returned body \<Rightarrow>
                 Inl (HakunaApiError
                       (''API error '' @ str_nat (status response) @ '': '' @ body))
             | RaisedClientError err \<Rightarrow> Inl (HakunaApiError (''Connection error: '' @ err))
             | RaisedOther err \<Rightarrow> Inl (PyError err))
          else if status response = 204 then Inr JNull
          else
            (case json_result response of
               Returned v \<Rightarrow> Inr v
             | RaisedClientError err \<Rightarrow> Inl (HakunaApiError (''Connection error: '' @ err))
             | RaisedOther err \<Rightarrow> Inl (PyError err)))"

subsection \<open>Timer and overview\<close>

text \<open>
  \<open>get_timer\<close> (lines 90-110): a truthy result whose \<open>date\<close> is \<open>None\<close> is turned into
  \<open>None\<close>; every other result is returned as it is.
\<close>

definition get_timer :: "hakuna_client \<Rightarrow> exn + json" where
  "get_timer c =
     (case request c ''GET'' ''/timer'' None None of
        Inl err \<Rightarrow> Inl err
      | Inr result \<Rightarrow>
          if truthy result then
            (case py_get result ''date'' of
               Inl err \<Rightarrow> Inl err
             | Inr d \<Rightarrow> if d = JNull then Inr JNull else Inr result)
          else Inr result)"

text \<open>\<open>is_timer_running\<close> (lines 259-262).\<close>

definition is_timer_running :: "hakuna_client \<Rightarrow> exn + bool" where
  "is_timer_running c =
     (case get_timer c of Inl err \<Rightarrow> Inl err | Inr tm \<Rightarrow> Inr (tm \<noteq> JNull))"

text \<open>\<open>get_overview\<close> (lines 139-155); an empty parameter dictionary is sent as \<open>None\<close>.\<close>

definition get_overview :: "hakuna_client \<Rightarrow> int option \<Rightarrow> exn + json" where
  "get_overview c user_id =
     (let ps = (case user_id of None \<Rightarrow> [] | Some u \<Rightarrow> [(''user_id'', JInt u)])
      in request c ''GET'' ''/overview'' (if ps \<noteq> [] then Some ps else None) None)"

subsection \<open>Time entries\<close>

text \<open>A \<open>datetime.date\<close> and its \<open>isoformat()\<close>, the text \<open>YYYY-MM-DD\<close>.\<close>

record date =
  year :: nat
  month :: nat
  day :: nat

definition zfill :: "nat \<Rightarrow> string \<Rightarrow> string" where
  "zfill w s = replicate (w - length s) CHR ''0'' @ s"

definition isoformat :: "date \<Rightarrow> string" where
  "isoformat d =
     zfill 4 (str_nat (year d)) @ ''-'' @ zfill 2 (str_nat (month d)) @ ''-''
       @ zfill 2 (str_nat (day d))"

text \<open>An argument of type \<open>date | str\<close>.\<close>

datatype date_arg = DateArg date | StrArg string

text \<open>
  The query of \<open>get_time_entries\<close> (lines 166-178): a date is replaced by its ISO
  text, a missing end date by the start date after that replacement.
\<close>

definition time_entries_params ::
  "date_arg \<Rightarrow> date_arg option \<Rightarrow> int option \<Rightarrow> (string \<times> json) list" where
  "time_entries_params start_date end_date user_id =
     (let start = (case start_date of DateArg d \<Rightarrow> isoformat d | StrArg s \<Rightarrow> s);
          stop = (case end_date of
                    None \<Rightarrow> start
                  | Some (DateArg d) \<Rightarrow> isoformat d
                  | Some (StrArg s) \<Rightarrow> s)
      in [(''start_date'', JStr start), (''end_date'', JStr stop)]
           @ (case user_id of None \<Rightarrow> [] | Some u \<Rightarrow> [(''user_id'', JInt u)]))"

text \<open>\<open>get_time_entries\<close> (lines 159-181).\<close>

definition get_time_entries ::
  "hakuna_client \<Rightarrow> date_arg \<Rightarrow> date_arg option \<Rightarrow> int option \<Rightarrow> exn + json" where
  "get_time_entries c start_date end_date user_id =
     (case request c ''GET'' ''/time_entries''
             (Some (time_entries_params start_date end_date user_id)) None of
        Inl err \<Rightarrow> Inl err
      | Inr result \<Rightarrow> Inr (or_empty_list result))"

subsection \<open>The other list-returning operations\<close>

text \<open>
  \<open>get_absences\<close> (lines 189-202); \<open>now_year\<close> is \<open>datetime.now().year\<close>, read when
  no year is given.
\<close>

definition get_absences ::
  "hakuna_client \<Rightarrow> int \<Rightarrow> int option \<Rightarrow> int option \<Rightarrow> exn + json" where
  "get_absences c now_year yr user_id =
     (let ps = [(''year'', JInt (case yr of Some y \<Rightarrow> y | None \<Rightarrow> now_year))]
                @ (case user_id of None \<Rightarrow> [] | Some u \<Rightarrow> [(''user_id'', JInt u)])
      in case request c ''GET'' ''/absences'' (Some ps) None of
           Inl err \<Rightarrow> Inl err
         | Inr result \<Rightarrow> Inr (or_empty_list result))"

text \<open>
  \<open>get_users\<close>, \<open>get_presence\<close>, \<open>get_projects\<close>, \<open>get_tasks\<close> and
  \<open>get_absence_types\<close> (lines 206-249) differ in the endpoint only.
\<close>

definition get_list :: "hakuna_client \<Rightarrow> string \<Rightarrow> exn + json" where
  "get_list c endpoint =
     (case request c ''GET'' endpoint None None of
        Inl err \<Rightarrow> Inl err
      | Inr result \<Rightarrow> Inr (or_empty_list result))"

definition get_users :: "hakuna_client \<Rightarrow> exn + json" where
  "get_users c = get_list c ''/users''"

definition get_presence :: "hakuna_client \<Rightarrow> exn + json" where
  "get_presence c = get_list c ''/presence''"

definition get_projects :: "hakuna_client \<Rightarrow> exn + json" where
  "get_projects c = get_list c ''/projects''"

definition get_tasks :: "hakuna_client \<Rightarrow> exn + json" where
  "get_tasks c = get_list c ''/tasks''"

definition get_absence_types :: "hakuna_client \<Rightarrow> exn + json" where
  "get_absence_types c = get_list c ''/absence_types''"

section \<open>The refresh cycle (coordinator.py)\<close>

text \<open>The dictionary returned by \<open>_async_update_data\<close> (lines 74-82).\<close>

record snapshot =
  timer :: json
  overview :: json
  presence :: json
  users :: json
  tasks :: json
  default_task_id :: json
  timer_running :: bool

text \<open>
  \<open>try: ... except HakunaApiError: value = []\<close> (lines 44-59): an error of the client is
  replaced by the empty list, every other exception goes on.
\<close>

definition best_effort :: "exn + json \<Rightarrow> exn + json" where
  "best_effort r =
     (case r of
        Inl err \<Rightarrow> if is_HakunaApiError err then Inr (JList []) else Inl err
      | Inr v \<Rightarrow> Inr v)"

text \<open>
  The first loop (lines 62-66): the \<open>id\<close> of the first task with a truthy \<open>default\<close> and
  a falsy \<open>archived\<close>; \<open>None\<close> when the loop ends without a \<open>break\<close>.
\<close>

fun first_default :: "json list \<Rightarrow> exn + json" where
  "first_default [] = Inr JNull"
| "first_default (task # rest) =
     (case py_get task ''default'' of
        Inl err \<Rightarrow> Inl err
      | Inr dflt \<Rightarrow>
          if truthy dflt then
            (case py_get task ''archived'' of
               Inl err \<Rightarrow> Inl err
             | Inr arch \<Rightarrow> if \<not> truthy arch then py_get task ''id'' else first_default rest)
          else first_default rest)"

text \<open>The fallback loop (lines 69-72): the \<open>id\<close> of the first task with a falsy \<open>archived\<close>.\<close>

fun first_active :: "json list \<Rightarrow> exn + json" where
  "first_active [] = Inr JNull"
| "first_active (task # rest) =
     (case py_get task ''archived'' of
        Inl err \<Rightarrow> Inl err
      | Inr arch \<Rightarrow> if \<not> truthy arch then py_get task ''id'' else first_active rest)"

text \<open>
  Lines 61-72 as a whole. The fallback runs when the first loop left \<open>None\<close> and the
  task value is truthy.
\<close>

definition find_default_task :: "json \<Rightarrow> exn + json" where
  "find_default_task tks =
     (case py_iter tks of
        Inl err \<Rightarrow> Inl err
      | Inr items \<Rightarrow>
          (case first_default items of
             Inl err \<Rightarrow> Inl err
           | Inr found \<Rightarrow>
               if found = JNull \<and> truthy tks then first_active items else Inr found))"

text \<open>The body of the \<open>try\<close> block (lines 37-82).\<close>

definition update_body :: "hakuna_client \<Rightarrow> exn + snapshot" where
  "update_body c =
     (case get_timer c of
        Inl err \<Rightarrow> Inl err
      | Inr tm \<Rightarrow>
     (case get_overview c None of
        Inl err \<Rightarrow> Inl err
      | Inr ov \<Rightarrow>
     (case best_effort (get_presence c) of
        Inl err \<Rightarrow> Inl err
      | Inr pr \<Rightarrow>
     (case best_effort (get_users c) of
        Inl err \<Rightarrow> Inl err
      | Inr us \<Rightarrow>
     (case best_effort (get_tasks c) of
        Inl err \<Rightarrow> Inl err
      | Inr tks \<Rightarrow>
     (case find_default_task tks of
        Inl err \<Rightarrow> Inl err
      | Inr dtid \<Rightarrow>
          Inr \<lparr>timer = tm, overview = ov, presence = pr, users = us, tasks = tks,
               default_task_id = dtid, timer_running = (tm \<noteq> JNull)\<rparr>))))))"

text \<open>
  \<open>_async_update_data\<close> (lines 34-87): the two handlers, the one for
  \<open>HakunaAuthError\<close> first.
\<close>

definition async_update_data :: "hakuna_client \<Rightarrow> exn + snapshot" where
  "async_update_data c =
     (case update_body c of
        Inr snap \<Rightarrow> Inr snap
      | Inl err \<Rightarrow>
          if is_HakunaAuthError err then
            Inl (UpdateFailed (''Authentication failed: '' @ str_exn err))
          else if is_HakunaApiError err then
            Inl (UpdateFailed (''Error fetching data: '' @ str_exn err))
          else Inl err)"

text \<open>
  Modelled from the spec: the publishing step of the host framework's
  \<open>DataUpdateCoordinator\<close>, which is not part of this repository. A cycle that
  returns a snapshot replaces the published one; a cycle that raises leaves the
  published snapshot as it was and records the failure (spec, sections 4.2 and 7).
\<close>

record coordinator =
  api_client :: hakuna_client
  data :: "snapshot option"
  last_exception :: "exn option"

definition async_refresh :: "coordinator \<Rightarrow> coordinator" where
  "async_refresh co =
     (case async_update_data (api_client co) of
        Inr snap \<Rightarrow> co\<lparr>data := Some snap, last_exception := None\<rparr>
      | Inl err \<Rightarrow> co\<lparr>last_exception := Some err\<rparr>)"

section \<open>The action buttons (button.py)\<close>

text \<open>
  \<open>HakunaButton.available\<close> (lines 87-104), for the coordinator's data and the key of
  the button's description.
\<close>

definition available :: "snapshot option \<Rightarrow> string \<Rightarrow> bool" where
  "available coordinator_data key =
     (case coordinator_data of
        None \<Rightarrow> False
      | Some d \<Rightarrow>
          if key = ''start_timer'' then \<not> timer_running d
          else if key \<in> {''stop_timer'', ''cancel_timer''} then timer_running d
          else True)"

section \<open>Reference definitions\<close>

text \<open>
  A task as the data model of the specification describes it (section 3): an integer id,
  a name and the two flags. \<open>task_json\<close> is the dictionary the service sends for it.
\<close>

record task =
  task_id :: int
  task_name :: string
  task_default :: bool
  task_archived :: bool

definition task_json :: "task \<Rightarrow> json" where
  "task_json t =
     JObj [(''id'', JInt (task_id t)), (''name'', JStr (task_name t)),
           (''default'', JBool (task_default t)), (''archived'', JBool (task_archived t))]"

text \<open>An optional id as a payload value: \<open>None\<close> when absent.\<close>

definition json_of_id :: "int option \<Rightarrow> json" where
  "json_of_id r = (case r of None \<Rightarrow> JNull | Some i \<Rightarrow> JInt i)"

text \<open>
  The selection policy in the words of the specification: the id of the first task
  that is default and not archived, else of the first task that is not archived, else
  absent.
\<close>

definition spec_default_task_id :: "task list \<Rightarrow> int option" where
  "spec_default_task_id ts =
     (case find (\<lambda>t. task_default t \<and> \<not> task_archived t) ts of
        Some t \<Rightarrow> Some (task_id t)
      | None \<Rightarrow>
          (case find (\<lambda>t. \<not> task_archived t) ts of
             Some t \<Rightarrow> Some (task_id t)
           | None \<Rightarrow> None))"

text \<open>
  A response that reports no content: status 204, or a 2xx status with an empty body,
  for which \<open>await response.json()\<close> returns \<open>None\<close>.
\<close>

definition no_content :: "http_response \<Rightarrow> bool" where
  "no_content r =
     (status r = 204
      \<or> (200 \<le> status r \<and> status r < 300 \<and> json_result r = Returned JNull))"

section \<open>Concrete sessions\<close>

text \<open>Sessions with fixed answers, on which the operations are evaluated below.\<close>

definition reply :: "nat \<Rightarrow> json \<Rightarrow> http_response attempt" where
  "reply st body =
     Returned \<lparr>status = st, headers = (\<lambda>h. None), body_text = Returned [], json_result = Returned body\<rparr>"

definition client_with :: "(http_request \<Rightarrow> http_response attempt) \<Rightarrow> hakuna_client" where
  "client_with s = \<lparr>session = s, api_token = ''secret'', company = None\<rparr>"

definition fixed_session :: "http_response attempt \<Rightarrow> http_request \<Rightarrow> http_response attempt" where
  "fixed_session answer req = answer"

definition demo_timer :: json where
  "demo_timer = JObj [(''date'', JStr ''2024-05-01''), (''start_time'', JStr ''09:00'')]"

definition demo_overview :: json where
  "demo_overview = JObj [(''overtime'', JStr ''10:30''), (''overtime_in_seconds'', JInt 37800)]"

definition demo_tasks :: "task list" where
  "demo_tasks = [\<lparr>task_id = 1, task_name = ''Work'', task_default = True, task_archived = False\<rparr>]"

text \<open>
  A running timer, an overview, one default task, no users, and a connection failure
  on the presence endpoint.
\<close>

definition demo_session :: "http_request \<Rightarrow> http_response attempt" where
  "demo_session req =
     (if url req = API_BASE_URL @ ''/timer'' then reply 200 demo_timer
      else if url req = API_BASE_URL @ ''/overview'' then reply 200 demo_overview
      else if url req = API_BASE_URL @ ''/presence'' then RaisedClientError ''Cannot connect''
      else if url req = API_BASE_URL @ ''/tasks'' then reply 200 (JList (map task_json demo_tasks))
      else reply 204 JNull)"

definition demo_snapshot :: snapshot where
  "demo_snapshot =
     \<lparr>timer = demo_timer, overview = demo_overview, presence = JList [], users = JList [],
      tasks = JList (map task_json demo_tasks), default_task_id = JInt 1, timer_running = True\<rparr>"

text \<open>The task list of the selection example in section 8 of the specification.\<close>

definition example_tasks :: json where
  "example_tasks =
     JList [JObj [(''id'', JInt 1), (''default'', JBool False), (''archived'', JBool False)],
            JObj [(''id'', JInt 2), (''default'', JBool True), (''archived'', JBool True)],
            JObj [(''id'', JInt 3), (''default'', JBool False), (''archived'', JBool False)]]"

definition not_found_session :: "http_request \<Rightarrow> http_response attempt" where
  "not_found_session = fixed_session (reply 404 JNull)"


definition broken :: http_response where
  "broken = \<lparr>status = 500, headers = Map.empty, body_text = Returned ''oops'',
             json_result = Returned JNull\<rparr>"

text \<open>No timer (404 on the timer endpoint) and a rejected token on the overview.\<close>

definition denied_session :: "http_request \<Rightarrow> http_response attempt" where
  "denied_session req =
     (if url req = API_BASE_URL @ ''/timer'' then reply 404 JNull
      else if url req = API_BASE_URL @ ''/overview'' then reply 401 JNull
      else reply 204 JNull)"

definition denied_coordinator :: coordinator where
  "denied_coordinator =
     \<lparr>api_client = client_with denied_session, data = Some demo_snapshot,
      last_exception = None\<rparr>"

text \<open>Status 200 with the empty JSON object as body, on every endpoint.\<close>

definition empty_object_session :: "http_request \<Rightarrow> http_response attempt" where
  "empty_object_session = fixed_session (reply 200 (JObj []))"


text \<open>Every request ends in an exception that is no \<open>aiohttp.ClientError\<close>.\<close>

definition timeout_session :: "http_request \<Rightarrow> http_response attempt" where
  "timeout_session = fixed_session (RaisedOther ''TimeoutError'')"

section \<open>Conditions on the answers of the session\<close>






section \<open>Evaluation on the concrete sessions\<close>

lemma session_fixed: "session (client_with (fixed_session a)) req = a"
  by (simp add: client_with_def fixed_session_def)

lemma str_nat_500: "str_nat 500 = ''500''"
  by (simp add: str_nat.simps)

lemma demo_get_timer: "get_timer (client_with demo_session) = Inr demo_timer"
  by (simp add: get_timer_def request_def api_request_def client_with_def demo_session_def
        reply_def demo_timer_def)

lemma demo_get_overview: "get_overview (client_with demo_session) None = Inr demo_overview"
  by (simp add: get_overview_def request_def api_request_def client_with_def demo_session_def
        reply_def)

lemma demo_get_presence:
  "get_presence (client_with demo_session) = Inl (HakunaApiError ''Connection error: Cannot connect'')"
  by (simp add: get_presence_def get_list_def request_def api_request_def client_with_def
        demo_session_def reply_def)

lemma demo_get_users: "get_users (client_with demo_session) = Inr (JList [])"
  by (simp add: get_users_def get_list_def request_def api_request_def client_with_def
        demo_session_def reply_def or_empty_list_def)

lemma demo_get_tasks:
  "get_tasks (client_with demo_session) = Inr (JList (map task_json demo_tasks))"
  by (simp add: get_tasks_def get_list_def request_def api_request_def client_with_def
        demo_session_def reply_def or_empty_list_def demo_tasks_def)

lemma demo_default: "spec_default_task_id demo_tasks = Some 1"
  by (simp add: spec_default_task_id_def demo_tasks_def)

lemma denied_get_timer: "get_timer (client_with denied_session) = Inr JNull"
  by (simp add: get_timer_def request_def api_request_def client_with_def denied_session_def
        reply_def)

lemma denied_overview:
  "session (client_with denied_session)
     (api_request (client_with denied_session) ''GET'' ''/overview'' None None)
   = reply 401 JNull"
  by (simp add: api_request_def client_with_def denied_session_def)

lemma broken_get_timer:
  "get_timer (client_with (fixed_session (Returned broken)))
     = Inl (HakunaApiError ''API error 500: oops'')"
  by (simp add: get_timer_def request_def session_fixed broken_def str_nat_500)






section \<open>Default task selection\<close>

text \<open>On well-formed tasks each loop is a search with \<open>find\<close>.\<close>

lemma first_default_typed:
  "first_default (map task_json ts) =
     Inr (json_of_id (map_option task_id (find (\<lambda>t. task_default t \<and> \<not> task_archived t) ts)))"
  by (induction ts) (simp_all add: task_json_def json_of_id_def)

lemma first_active_typed:
  "first_active (map task_json ts) =
     Inr (json_of_id (map_option task_id (find (\<lambda>t. \<not> task_archived t) ts)))"
  by (induction ts) (simp_all add: task_json_def json_of_id_def)

lemma find_default_task_typed:
  "find_default_task (JList (map task_json ts)) = Inr (json_of_id (spec_default_task_id ts))"
  by (auto simp: find_default_task_def first_default_typed first_active_typed
        spec_default_task_id_def json_of_id_def split: option.splits)


text \<open>The loops raise nothing but the exceptions of Python itself.\<close>

lemma py_get_error: "py_get v k = Inl err \<Longrightarrow> \<exists>m. err = PyError m"
  by (cases v) auto

lemma py_iter_error: "py_iter v = Inl err \<Longrightarrow> \<exists>m. err = PyError m"
  by (cases v) auto

lemma first_default_error: "first_default xs = Inl err \<Longrightarrow> \<exists>m. err = PyError m"
  by (induction xs) (auto split: sum.splits if_splits dest: py_get_error)

lemma first_active_error: "first_active xs = Inl err \<Longrightarrow> \<exists>m. err = PyError m"
  by (induction xs) (auto split: sum.splits if_splits dest: py_get_error)

lemma find_default_task_error: "find_default_task v = Inl err \<Longrightarrow> \<exists>m. err = PyError m"
  by (auto simp: find_default_task_def split: sum.splits if_splits
        dest: py_iter_error first_default_error first_active_error)

section \<open>The snapshot of a cycle\<close>

lemma demo_update: "async_update_data (client_with demo_session) = Inr demo_snapshot"
  by (simp add: async_update_data_def update_body_def demo_get_timer demo_get_overview
        demo_get_presence demo_get_users demo_get_tasks best_effort_def
        find_default_task_typed demo_default json_of_id_def demo_snapshot_def demo_timer_def)

text \<open>Every field of a returned snapshot is the result of its step of the cycle.\<close>

lemma snapshot_fields:
  "async_update_data c = Inr snap \<Longrightarrow>
     get_timer c = Inr (timer snap) \<and> get_overview c None = Inr (overview snap)
     \<and> best_effort (get_presence c) = Inr (presence snap)
     \<and> best_effort (get_users c) = Inr (users snap)
     \<and> best_effort (get_tasks c) = Inr (tasks snap)
     \<and> find_default_task (tasks snap) = Inr (default_task_id snap)"
  by (auto simp: async_update_data_def update_body_def split: sum.splits if_splits)

text \<open>
  C1. In every snapshot that a refresh cycle returns, \<open>timer_running\<close> is true exactly
  when the \<open>timer\<close> field is not \<open>None\<close>: the flag is computed from the timer field
  while the snapshot is assembled, and no request is made for it.
\<close>

theorem snapshot_timer_running:
  "async_update_data c = Inr snap \<Longrightarrow> timer_running snap = (timer snap \<noteq> JNull)"
  by (auto simp: async_update_data_def update_body_def split: sum.splits if_splits)

text \<open>The cycle on the demo session returns a snapshot, and the flag agrees with its timer.\<close>

theorem snapshot_timer_running_witness:
  "async_update_data (client_with demo_session) = Inr demo_snapshot
   \<and> timer_running demo_snapshot = (timer demo_snapshot \<noteq> JNull)"
  using snapshot_timer_running [OF demo_update] demo_update by simp

text \<open>
  C2. For every list of fetched tasks the derived \<open>default_task_id\<close> is the id of the
  first task that is default and not archived; without such a task, the id of the first
  task that is not archived; without a task that is not archived (so for the empty
  list), \<open>None\<close>. The first conjunct is the selection itself, the second the field of a
  snapshot whose tasks are that list.
\<close>

theorem default_task_selection:
  "find_default_task (JList (map task_json ts)) = Inr (json_of_id (spec_default_task_id ts))
   \<and> (async_update_data c = Inr snap \<and> tasks snap = JList (map task_json ts)
        \<longrightarrow> default_task_id snap = json_of_id (spec_default_task_id ts))"
  using snapshot_fields [of c snap] by (auto simp: find_default_task_typed)

text \<open>
  The two instances named with the policy: the single default task with id 1 gives 1
  (also as the field of the demo snapshot), the empty list gives \<open>None\<close>.
\<close>

theorem default_task_selection_witness:
  "find_default_task (JList (map task_json demo_tasks)) = Inr (JInt 1)
   \<and> find_default_task (JList (map task_json [])) = Inr JNull
   \<and> default_task_id demo_snapshot = JInt 1"
proof -
  have t: "tasks demo_snapshot = JList (map task_json demo_tasks)"
    by (simp add: demo_snapshot_def)
  have e: "spec_default_task_id [] = None"
    by (simp add: spec_default_task_id_def)
  show ?thesis
    using default_task_selection [of demo_tasks "client_with demo_session" demo_snapshot]
      default_task_selection [of "[]" "client_with demo_session" demo_snapshot]
      demo_update t e demo_default
    by (simp add: json_of_id_def)
qed

text \<open>
  C3, as stated, expects 3 for the example list. The selection does not return 3 there.
\<close>

theorem example_tasks_not_three: "find_default_task example_tasks \<noteq> Inr (JInt 3)"
  by (simp add: find_default_task_def example_tasks_def)

text \<open>
  C3, amended. For the task list
  \<open>[{id:1,default:false,archived:false}, {id:2,default:true,archived:true},
  {id:3,default:false,archived:false}]\<close> the derived \<open>default_task_id\<close> is 1: no task is
  default and not archived (task 2 is archived), and the first task that is not archived
  is task 1.
\<close>

theorem example_tasks_first_active: "find_default_task example_tasks = Inr (JInt 1)"
  by (simp add: find_default_task_def example_tasks_def)

section \<open>Classification of responses\<close>

text \<open>
  C4. The classification has every status from 400 on, other than 401, 429 and the 404
  of the timer endpoint, raise the generic error. A 404 on the overview endpoint raises
  nothing: \<open>_request\<close> returns \<open>None\<close>, so does \<open>get_overview\<close>, and the cycle puts
  \<open>None\<close> into the \<open>overview\<close> field of a new snapshot.
\<close>

theorem request_404_overview_no_error:
  "request (client_with not_found_session) ''GET'' ''/overview'' None None = Inr JNull
   \<and> get_overview (client_with not_found_session) None = Inr JNull
   \<and> async_update_data (client_with not_found_session)
       = Inr \<lparr>timer = JNull, overview = JNull, presence = JList [], users = JList [],
              tasks = JList [], default_task_id = JNull, timer_running = False\<rparr>"
proof -
  have r: "\<And>meth ep ps js.
      request (client_with not_found_session) meth ep ps js = Inr JNull"
    by (simp add: request_def client_with_def not_found_session_def fixed_session_def
          reply_def)
  have l: "\<And>ep. get_list (client_with not_found_session) ep = Inr (JList [])"
    by (simp add: get_list_def r or_empty_list_def)
  have t: "get_timer (client_with not_found_session) = Inr JNull"
    by (simp add: get_timer_def r)
  have o: "get_overview (client_with not_found_session) None = Inr JNull"
    by (simp add: get_overview_def r)
  have "async_update_data (client_with not_found_session)
       = Inr \<lparr>timer = JNull, overview = JNull, presence = JList [], users = JList [],
              tasks = JList [], default_task_id = JNull, timer_running = False\<rparr>"
    by (simp add: async_update_data_def update_body_def t o l get_presence_def get_users_def
          get_tasks_def best_effort_def find_default_task_def)
  with r o show ?thesis by simp
qed

text \<open>
  The other classes of \<open>_request\<close>, and the 404 on any endpoint: what the function does
  for each answer of the session.
\<close>

lemma request_classification:
  "(session c (api_request c meth ep ps js) = RaisedClientError cause \<longrightarrow>
      request c meth ep ps js = Inl (HakunaApiError (''Connection error: '' @ cause)))
   \<and> (session c (api_request c meth ep ps js) = Returned r \<longrightarrow>
        (status r = 401 \<longrightarrow>
           request c meth ep ps js = Inl (HakunaAuthError ''Invalid API token''))
        \<and> (status r = 429 \<longrightarrow>
             request c meth ep ps js =
               Inl (HakunaRateLimitError
                     (''Rate limit exceeded. Retry after ''
                       @ (case headers r ''Retry-After'' of None \<Rightarrow> ''unknown'' | Some v \<Rightarrow> v)
                       @ '' seconds'')))
        \<and> (status r = 404 \<longrightarrow> request c meth ep ps js = Inr JNull)
        \<and> (400 \<le> status r \<and> status r \<noteq> 401 \<and> status r \<noteq> 429 \<and> status r \<noteq> 404
             \<and> body_text r = Returned body \<longrightarrow>
             request c meth ep ps js =
               Inl (HakunaApiError (''API error '' @ str_nat (status r) @ '': '' @ body)))
        \<and> (status r = 204 \<longrightarrow> request c meth ep ps js = Inr JNull)
        \<and> (200 \<le> status r \<and> status r < 300 \<and> status r \<noteq> 204
             \<and> json_result r = Returned v \<longrightarrow>
             request c meth ep ps js = Inr v))"
  by (simp add: request_def)

text \<open>What a request raises is an error of the client or an exception of Python itself.\<close>

lemma request_error_kinds:
  "request c meth ep ps js = Inl err \<Longrightarrow> is_HakunaApiError err \<or> (\<exists>m. err = PyError m)"
  by (auto simp: request_def split: attempt.splits if_splits)

lemma get_list_error_kinds:
  "get_list c ep = Inl err \<Longrightarrow> is_HakunaApiError err \<or> (\<exists>m. err = PyError m)"
  by (auto simp: get_list_def split: sum.splits dest: request_error_kinds)




section \<open>Failures of a cycle\<close>

text \<open>
  A failed critical fetch ends the cycle: in the handler of its class for an error of
  the client, and with the exception itself for every other one.
\<close>

lemma update_failure:
  assumes "get_timer c = Inl e \<or> (get_timer c = Inr tm \<and> get_overview c None = Inl e)"
  shows "async_update_data c =
           Inl (if is_HakunaAuthError e then
                  UpdateFailed (''Authentication failed: '' @ str_exn e)
                else if is_HakunaApiError e then
                  UpdateFailed (''Error fetching data: '' @ str_exn e)
                else e)"
  using assms by (auto simp: async_update_data_def update_body_def)

lemma refresh_keeps_data:
  "async_update_data (api_client co) = Inl err \<Longrightarrow>
     data (async_refresh co) = data co \<and> last_exception (async_refresh co) = Some err"
  by (simp add: async_refresh_def)

lemma get_overview_401:
  assumes "session c (api_request c ''GET'' ''/overview'' None None) = Returned r"
    and "status r = 401"
  shows "get_overview c None = Inl (HakunaAuthError ''Invalid API token'')"
  using assms by (simp add: get_overview_def request_def)

lemma timeout_get_timer:
  "get_timer (client_with timeout_session) = Inl (PyError ''TimeoutError'')"
  by (simp add: get_timer_def request_def client_with_def timeout_session_def
        fixed_session_def)

text \<open>
  C5, as stated, has every failure of a critical fetch surfaced as the named refresh
  failure. A timer fetch that ends in an exception that is no \<open>aiohttp.ClientError\<close>
  (a timeout) is not an error of the client; neither handler of the cycle takes it, and
  the cycle ends in that exception, not in \<open>UpdateFailed\<close>.
\<close>

theorem critical_timeout_not_update_failed:
  "get_timer (client_with timeout_session) = Inl (PyError ''TimeoutError'')
   \<and> async_update_data (client_with timeout_session) = Inl (PyError ''TimeoutError'')
   \<and> async_update_data (client_with timeout_session)
       \<noteq> Inl (UpdateFailed ''Error fetching data: TimeoutError'')"
  by (simp add: timeout_get_timer async_update_data_def update_body_def)

text \<open>
  C5, amended. When the timer fetch raises, or the timer fetch succeeds and the overview
  fetch raises, the cycle returns no snapshot and the published snapshot stays as it was.
  An error of the client is surfaced as \<open>UpdateFailed\<close>, whose message starts with
  \<open>Authentication failed\<close> for an authentication error and with \<open>Error fetching data\<close>
  for every other error of the client; an exception that is no error of the client is
  passed on as it is. In particular a 401 on the overview fetch raises the authentication
  failure and publishes nothing.
\<close>

theorem critical_failure_aborts:
  "(get_timer (api_client co) = Inl e
      \<or> (get_timer (api_client co) = Inr tm \<and> get_overview (api_client co) None = Inl e)
     \<longrightarrow> (is_HakunaAuthError e \<longrightarrow>
            async_update_data (api_client co)
              = Inl (UpdateFailed (''Authentication failed: '' @ str_exn e)))
         \<and> (is_HakunaApiError e \<and> \<not> is_HakunaAuthError e \<longrightarrow>
              async_update_data (api_client co)
                = Inl (UpdateFailed (''Error fetching data: '' @ str_exn e)))
         \<and> (\<not> is_HakunaApiError e \<longrightarrow> async_update_data (api_client co) = Inl e)
         \<and> data (async_refresh co) = data co
         \<and> (\<exists>x. async_update_data (api_client co) = Inl x
                \<and> last_exception (async_refresh co) = Some x))
   \<and> (get_timer (api_client co) = Inr tm
        \<and> session (api_client co) (api_request (api_client co) ''GET'' ''/overview'' None None)
            = Returned r
        \<and> status r = 401
     \<longrightarrow> async_update_data (api_client co)
           = Inl (UpdateFailed ''Authentication failed: Invalid API token'')
         \<and> data (async_refresh co) = data co)"
proof -
  have auth: "is_HakunaAuthError e \<Longrightarrow> is_HakunaApiError e"
    by (cases e) simp_all
  have a: "(is_HakunaAuthError e \<longrightarrow>
              async_update_data (api_client co)
                = Inl (UpdateFailed (''Authentication failed: '' @ str_exn e)))
           \<and> (is_HakunaApiError e \<and> \<not> is_HakunaAuthError e \<longrightarrow>
                async_update_data (api_client co)
                  = Inl (UpdateFailed (''Error fetching data: '' @ str_exn e)))
           \<and> (\<not> is_HakunaApiError e \<longrightarrow> async_update_data (api_client co) = Inl e)
           \<and> data (async_refresh co) = data co
           \<and> (\<exists>x. async_update_data (api_client co) = Inl x
                  \<and> last_exception (async_refresh co) = Some x)"
    if "get_timer (api_client co) = Inl e
        \<or> (get_timer (api_client co) = Inr tm \<and> get_overview (api_client co) None = Inl e)"
    using update_failure [OF that] refresh_keeps_data [of co] auth by auto
  have b: "async_update_data (api_client co)
             = Inl (UpdateFailed ''Authentication failed: Invalid API token'')
           \<and> data (async_refresh co) = data co"
    if "get_timer (api_client co) = Inr tm"
      and "session (api_client co) (api_request (api_client co) ''GET'' ''/overview'' None None)
            = Returned r"
      and "status r = 401"
  proof -
    have "get_overview (api_client co) None = Inl (HakunaAuthError ''Invalid API token'')"
      using that(2,3) by (rule get_overview_401)
    with that(1) have "async_update_data (api_client co)
        = Inl (UpdateFailed ''Authentication failed: Invalid API token'')"
      using update_failure [of "api_client co" "HakunaAuthError ''Invalid API token''" tm]
      by simp
    then show ?thesis
      using refresh_keeps_data [of co] by simp
  qed
  from a b show ?thesis by blast
qed

text \<open>
  The rejected token on the overview, with a snapshot published before; a status 500 on
  the timer; and the timeout on the timer, with the same snapshot published before.
\<close>

theorem critical_failure_aborts_witness:
  "async_update_data (client_with denied_session)
     = Inl (UpdateFailed ''Authentication failed: Invalid API token'')
   \<and> data (async_refresh denied_coordinator) = Some demo_snapshot
   \<and> async_update_data (client_with (fixed_session (Returned broken)))
       = Inl (UpdateFailed ''Error fetching data: API error 500: oops'')
   \<and> async_update_data (client_with timeout_session) = Inl (PyError ''TimeoutError'')
   \<and> data (async_refresh \<lparr>api_client = client_with timeout_session,
                            data = Some demo_snapshot, last_exception = None\<rparr>)
       = Some demo_snapshot"
  using critical_failure_aborts [of denied_coordinator _ JNull
      "\<lparr>status = 401, headers = (\<lambda>h. None), body_text = Returned [],
        json_result = Returned JNull\<rparr>"]
    critical_failure_aborts [of
      "\<lparr>api_client = client_with (fixed_session (Returned broken)), data = None,
        last_exception = None\<rparr>" "HakunaApiError ''API error 500: oops''"]
    critical_failure_aborts [of
      "\<lparr>api_client = client_with timeout_session, data = Some demo_snapshot,
        last_exception = None\<rparr>" "PyError ''TimeoutError''"]
    denied_get_timer denied_overview broken_get_timer timeout_get_timer
  by (simp add: denied_coordinator_def reply_def)

section \<open>Best-effort fetches\<close>








section \<open>List-returning operations\<close>

text \<open>
  C7. For every start date, \<open>get_time_entries\<close> without an end date builds the same
  query, sends the same request and returns the same result as \<open>get_time_entries\<close> with
  the start date given as end date too.
\<close>

theorem time_entries_end_defaults_to_start:
  "time_entries_params d None u = time_entries_params d (Some d) u
   \<and> api_request c ''GET'' ''/time_entries'' (Some (time_entries_params d None u)) None
       = api_request c ''GET'' ''/time_entries'' (Some (time_entries_params d (Some d) u)) None
   \<and> get_time_entries c d None u = get_time_entries c d (Some d) u"
proof -
  have "time_entries_params d None u = time_entries_params d (Some d) u"
    by (cases d) (simp_all add: time_entries_params_def Let_def)
  then show ?thesis by (simp add: get_time_entries_def)
qed

lemma request_no_content:
  "session c (api_request c meth ep ps js) = Returned r \<Longrightarrow> no_content r \<Longrightarrow>
     request c meth ep ps js = Inr JNull"
  by (auto simp: request_def no_content_def)

lemma get_list_no_content:
  "session c (api_request c ''GET'' ep None None) = Returned r \<Longrightarrow> no_content r \<Longrightarrow>
     get_list c ep = Inr (JList [])"
  by (simp add: get_list_def request_no_content or_empty_list_def)

text \<open>
  C8. Each of the seven list-returning operations (time entries, absences, users,
  presence, projects, tasks, absence types) returns the empty list, and so never \<open>None\<close>,
  when the service answers its request with a response that reports no content.
\<close>

theorem list_operations_never_none:
  "no_content r \<Longrightarrow>
     (session c (api_request c ''GET'' ''/time_entries''
                  (Some (time_entries_params d1 d2 u)) None) = Returned r
        \<longrightarrow> get_time_entries c d1 d2 u = Inr (JList []))
   \<and> (session c (api_request c ''GET'' ''/absences''
                  (Some ([(''year'', JInt (case yr of Some y \<Rightarrow> y | None \<Rightarrow> now_year))]
                     @ (case u of None \<Rightarrow> [] | Some i \<Rightarrow> [(''user_id'', JInt i)]))) None)
          = Returned r
        \<longrightarrow> get_absences c now_year yr u = Inr (JList []))
   \<and> (session c (api_request c ''GET'' ''/users'' None None) = Returned r
        \<longrightarrow> get_users c = Inr (JList []))
   \<and> (session c (api_request c ''GET'' ''/presence'' None None) = Returned r
        \<longrightarrow> get_presence c = Inr (JList []))
   \<and> (session c (api_request c ''GET'' ''/projects'' None None) = Returned r
        \<longrightarrow> get_projects c = Inr (JList []))
   \<and> (session c (api_request c ''GET'' ''/tasks'' None None) = Returned r
        \<longrightarrow> get_tasks c = Inr (JList []))
   \<and> (session c (api_request c ''GET'' ''/absence_types'' None None) = Returned r
        \<longrightarrow> get_absence_types c = Inr (JList []))"
  by (simp add: get_time_entries_def get_absences_def get_users_def get_presence_def
        get_projects_def get_tasks_def get_absence_types_def get_list_no_content
        request_no_content or_empty_list_def)

text \<open>
  A session that answers 204 to every request, for all seven operations, and one that
  answers 200 with an empty body.
\<close>

theorem list_operations_never_none_witness:
  "no_content \<lparr>status = 204, headers = (\<lambda>h. None), body_text = Returned [], json_result = Returned JNull\<rparr>
   \<and> no_content \<lparr>status = 200, headers = (\<lambda>h. None), body_text = Returned [], json_result = Returned JNull\<rparr>
   \<and> get_time_entries (client_with (fixed_session (reply 204 JNull)))
        (StrArg ''2024-05-01'') None None = Inr (JList [])
   \<and> get_absences (client_with (fixed_session (reply 204 JNull))) 2024 None None = Inr (JList [])
   \<and> get_users (client_with (fixed_session (reply 204 JNull))) = Inr (JList [])
   \<and> get_presence (client_with (fixed_session (reply 204 JNull))) = Inr (JList [])
   \<and> get_projects (client_with (fixed_session (reply 204 JNull))) = Inr (JList [])
   \<and> get_tasks (client_with (fixed_session (reply 204 JNull))) = Inr (JList [])
   \<and> get_absence_types (client_with (fixed_session (reply 204 JNull))) = Inr (JList [])
   \<and> get_users (client_with (fixed_session (reply 200 JNull))) = Inr (JList [])"
proof -
  have n1: "no_content \<lparr>status = 204, headers = (\<lambda>h. None), body_text = Returned [],
                         json_result = Returned JNull\<rparr>"
    by (simp add: no_content_def)
  have n2: "no_content \<lparr>status = 200, headers = (\<lambda>h. None), body_text = Returned [],
                         json_result = Returned JNull\<rparr>"
    by (simp add: no_content_def)
  show ?thesis
    using
      list_operations_never_none [OF n1,
        where c = "client_with (fixed_session (reply 204 JNull))"
          and ?d1.0 = "StrArg ''2024-05-01''" and ?d2.0 = None and u = None and yr = None
          and now_year = 2024]
      list_operations_never_none [OF n2,
        where c = "client_with (fixed_session (reply 200 JNull))"]
      n1 n2
    by (simp add: session_fixed reply_def)
qed

section \<open>The timer\<close>

text \<open>
  What \<open>get_timer\<close> does with a timer object that is not empty: without a \<open>date\<close>, or
  with \<open>date\<close> null, the result is \<open>None\<close>.
\<close>

lemma get_timer_null_date:
  assumes "request c ''GET'' ''/timer'' None None = Inr (JObj kvs)" and "kvs \<noteq> []"
    and "map_of kvs ''date'' = None \<or> map_of kvs ''date'' = Some JNull"
  shows "get_timer c = Inr JNull"
  using assms by (auto simp: get_timer_def)

text \<open>
  C9. A timer is to be reported only for a response body with a non-null \<open>date\<close> field.
  For status 200 with the body \<open>{}\<close> the truth test of line 108 skips the \<open>date\<close> test:
  \<open>get_timer\<close> returns the empty dictionary, which is not \<open>None\<close>, and
  \<open>is_timer_running\<close> answers true.
\<close>

theorem get_timer_empty_object:
  "get_timer (client_with empty_object_session) = Inr (JObj [])
   \<and> is_timer_running (client_with empty_object_session) = Inr True"
  by (simp add: get_timer_def is_timer_running_def request_def client_with_def
        empty_object_session_def fixed_session_def reply_def)

section \<open>Availability of the buttons\<close>

text \<open>
  C10. Without a published snapshot every button is unavailable. With a snapshot, the
  start button is available exactly when \<open>timer_running\<close> is false, the stop and the
  cancel button exactly when it is true, and the refresh button always.
\<close>

theorem button_available:
  "available None key = False
   \<and> available (Some d) ''start_timer'' = (\<not> timer_running d)
   \<and> available (Some d) ''stop_timer'' = timer_running d
   \<and> available (Some d) ''cancel_timer'' = timer_running d
   \<and> available (Some d) ''refresh'' = True"
  by (simp add: available_def)

end
